theory Spec2Isabelle
  imports Complex_Main
begin

section \<open>JavaScript text\<close>

text \<open>
  A JavaScript string is a sequence of UTF-16 code units. A code unit is modelled by its
  number, so that the character classes of the regular expressions (\<^verbatim>\<open>\s\<close>, \<^verbatim>\<open>\d\<close>,
  line terminators) are the ones of the language and not only their ASCII part.
  \<open>js\<close> turns an ASCII literal into such a text.
\<close>

type_synonym ustring = "nat list"

definition js :: "string \<Rightarrow> ustring" where
  "js s = map of_char s"

text \<open>\<^verbatim>\<open>\s\<close> and \<^verbatim>\<open>String.prototype.trim\<close>: WhiteSpace and LineTerminator of ECMAScript.\<close>

definition is_line_term :: "nat \<Rightarrow> bool" where
  "is_line_term c = (c = 10 \<or> c = 13 \<or> c = 8232 \<or> c = 8233)"

definition is_space :: "nat \<Rightarrow> bool" where
  "is_space c =
     (c = 9 \<or> c = 11 \<or> c = 12 \<or> c = 32 \<or> c = 160 \<or> c = 5760 \<or> (8192 \<le> c \<and> c \<le> 8202)
      \<or> c = 8239 \<or> c = 8287 \<or> c = 12288 \<or> c = 65279 \<or> is_line_term c)"

definition is_digit :: "nat \<Rightarrow> bool" where
  "is_digit c = (48 \<le> c \<and> c \<le> 57)"

definition trim :: "ustring \<Rightarrow> ustring" where
  "trim s = rev (dropWhile is_space (rev (dropWhile is_space s)))"

text \<open>
  The \<^verbatim>\<open>i\<close> flag against an ASCII pattern: a code unit matches a pattern letter when both
  have the same upper-case form; no code unit above 127 is canonicalised to an ASCII one.
\<close>

definition canon :: "nat \<Rightarrow> nat" where
  "canon c = (if 97 \<le> c \<and> c \<le> 122 then c - 32 else c)"

text \<open>Matching a literal at the head of a text; the result is the text after it.\<close>

fun prefix_ci :: "ustring \<Rightarrow> ustring \<Rightarrow> ustring option" where
  "prefix_ci [] s = Some s"
| "prefix_ci (p # ps) [] = None"
| "prefix_ci (p # ps) (c # cs) = (if canon p = canon c then prefix_ci ps cs else None)"

fun prefix_cs :: "ustring \<Rightarrow> ustring \<Rightarrow> ustring option" where
  "prefix_cs [] s = Some s"
| "prefix_cs (p # ps) [] = None"
| "prefix_cs (p # ps) (c # cs) = (if p = c then prefix_cs ps cs else None)"

text \<open>
  \<^verbatim>\<open>String.prototype.match\<close> without the \<^verbatim>\<open>g\<close> flag: the match attempt \<open>f\<close> is tried
  at every position from the left, the empty rest included, and the first success wins.
\<close>

fun first_match :: "(ustring \<Rightarrow> 'a option) \<Rightarrow> ustring \<Rightarrow> 'a option" where
  "first_match f [] = f []"
| "first_match f (c # cs) = (case f (c # cs) of Some r \<Rightarrow> Some r | None \<Rightarrow> first_match f cs)"

text \<open>The text before and after the leftmost occurrence of a literal.\<close>

fun split_at :: "ustring \<Rightarrow> ustring \<Rightarrow> (ustring \<times> ustring) option" where
  "split_at p [] = (if p = [] then Some ([], []) else None)"
| "split_at p (c # cs) =
     (case prefix_cs p (c # cs) of
        Some r \<Rightarrow> Some ([], r)
      | None \<Rightarrow> (case split_at p cs of Some (b, a) \<Rightarrow> Some (c # b, a) | None \<Rightarrow> None))"

section \<open>JavaScript values\<close>

text \<open>
  Objects keep their properties in insertion order. A number is the exact value of its
  decimal numeral: \<^verbatim>\<open>parseFloat\<close> rounds it to the nearest double, which is monotone and
  leaves 0 and 10 fixed, so every comparison made below has the same outcome.
\<close>

datatype jsval =
    Undefined | Null | Bool bool | Num rat | NaN | PosInf | NegInf
  | Str ustring | Arr "jsval list" | Obj "(ustring \<times> jsval) list"

type_synonym 'v props = "(ustring \<times> 'v) list"

fun truthy :: "jsval \<Rightarrow> bool" where
  "truthy Undefined = False"
| "truthy Null = False"
| "truthy (Bool b) = b"
| "truthy (Num q) = (q \<noteq> 0)"
| "truthy NaN = False"
| "truthy (Str s) = (s \<noteq> [])"
| "truthy v = True"

text \<open>\<^verbatim>\<open>o[k] = v\<close>: an existing property keeps its place, a new one goes last.\<close>

fun obj_set :: "ustring \<Rightarrow> 'v \<Rightarrow> 'v props \<Rightarrow> 'v props" where
  "obj_set k v [] = [(k, v)]"
| "obj_set k v ((k', v') # ps) = (if k = k' then (k, v) # ps else (k', v') # obj_set k v ps)"

text \<open>\<^verbatim>\<open>o[k]\<close> on an object: \<^verbatim>\<open>undefined\<close> when the property is missing.\<close>

definition get_prop :: "jsval props \<Rightarrow> ustring \<Rightarrow> jsval" where
  "get_prop ps k = (case map_of ps k of None \<Rightarrow> Undefined | Some v \<Rightarrow> v)"

text \<open>
  \<^verbatim>\<open>v[k]\<close> on a value that is neither \<^verbatim>\<open>null\<close> nor \<^verbatim>\<open>undefined\<close>, for a key that is no
  index and no built-in property (all keys read below are of that kind).
\<close>

fun get_member :: "jsval \<Rightarrow> ustring \<Rightarrow> jsval" where
  "get_member (Obj ps) k = get_prop ps k"
| "get_member v k = Undefined"

section \<open>Labeled-score extraction (generateRadarScores)\<close>

definition RADAR_CATEGORIES :: "ustring list" where
  "RADAR_CATEGORIES =
     [js ''theological_cohesion'', js ''scriptural_integration'', js ''structural_clarity'',
      js ''liturgical_harmony'', js ''voice_fidelity'', js ''emotional_presence'',
      js ''metaphorical_resonance'', js ''closing_force'', js ''embodied_authority'']"

text \<open>
  \<^verbatim>\<open>/SCORE <category>:\s*(\d+(?:\.\d+)?)/i\<close> tried at one position; the result is group 1.
  \<^verbatim>\<open>\s*\<close> is greedy and a digit is no white space, so giving white space back never helps.
\<close>

definition score_at :: "ustring \<Rightarrow> ustring \<Rightarrow> ustring option" where
  "score_at category s =
     (case prefix_ci (js ''SCORE '' @ category @ js '':'') s of
        None \<Rightarrow> None
      | Some r \<Rightarrow>
          (let r1 = dropWhile is_space r;
               d1 = takeWhile is_digit r1;
               r2 = dropWhile is_digit r1
           in if d1 = [] then None
              else (case r2 of
                      [] \<Rightarrow> Some d1
                    | c # r3 \<Rightarrow>
                        (let d2 = takeWhile is_digit r3
                         in if c = 46 \<and> d2 \<noteq> [] then Some (d1 @ [46] @ d2) else Some d1))))"

definition scoreMatch :: "ustring \<Rightarrow> ustring \<Rightarrow> ustring option" where
  "scoreMatch category llmResponse = first_match (score_at category) llmResponse"

text \<open>\<^verbatim>\<open>parseFloat\<close> on the texts group 1 can hold: digits, or digits, a dot and digits.\<close>

definition digits_val :: "ustring \<Rightarrow> nat" where
  "digits_val ds = foldl (\<lambda>a c. 10 * a + (c - 48)) 0 ds"

definition parseFloat :: "ustring \<Rightarrow> rat" where
  "parseFloat g =
     (let ip = takeWhile is_digit g; rest = dropWhile is_digit g
      in case rest of
           [] \<Rightarrow> of_nat (digits_val ip)
         | c # fr \<Rightarrow> of_nat (digits_val ip) + of_nat (digits_val fr) / 10 ^ length fr)"

text \<open>
  \<^verbatim>\<open>/JUSTIFICATION <category>:\s*(.+?)(?=\n\s*SCORE|\n\s*JUSTIFICATION|$)/is\<close>.
  Without the \<^verbatim>\<open>m\<close> flag \<^verbatim>\<open>$\<close> is the end of the text. \<open>just_ahead\<close> is the lookahead.
\<close>

definition just_ahead :: "ustring \<Rightarrow> bool" where
  "just_ahead r =
     (case r of
        [] \<Rightarrow> True
      | c # r1 \<Rightarrow>
          c = 10 \<and>
          (let r2 = dropWhile is_space r1
           in prefix_ci (js ''SCORE'') r2 \<noteq> None \<or> prefix_ci (js ''JUSTIFICATION'') r2 \<noteq> None))"

text \<open>The lazy group \<^verbatim>\<open>(.+?)\<close>: at least one code unit, then on until the lookahead holds.\<close>

fun lazy_group :: "ustring \<Rightarrow> ustring" where
  "lazy_group [] = []"
| "lazy_group (c # r) = c # (if just_ahead r then [] else lazy_group r)"

text \<open>
  One position. After the label the greedy \<^verbatim>\<open>\s*\<close> takes all white space; when nothing
  is left for the group it gives back one code unit, the last one, which the group takes.
\<close>

definition just_at :: "ustring \<Rightarrow> ustring \<Rightarrow> ustring option" where
  "just_at category s =
     (case prefix_ci (js ''JUSTIFICATION '' @ category @ js '':'') s of
        None \<Rightarrow> None
      | Some w \<Rightarrow>
          if w = [] then None
          else (let g = dropWhile is_space w
                in if g = [] then Some [last w] else Some (lazy_group g)))"

definition justMatch :: "ustring \<Rightarrow> ustring \<Rightarrow> ustring option" where
  "justMatch category llmResponse = first_match (just_at category) llmResponse"

record radar_result =
  radar_score :: "jsval props"
  justifications :: "ustring props"

definition no_evaluation :: ustring where
  "no_evaluation = js ''No evaluation provided.''"

text \<open>The body of the first \<^verbatim>\<open>forEach\<close>: what the reply holds for one category.\<close>

definition extract_category :: "ustring \<Rightarrow> radar_result \<Rightarrow> ustring \<Rightarrow> radar_result" where
  "extract_category llmResponse acc category =
     (let acc1 = (case scoreMatch category llmResponse of
                    None \<Rightarrow> acc
                  | Some g \<Rightarrow> acc\<lparr>radar_score := obj_set category (Num (parseFloat g)) (radar_score acc)\<rparr>)
      in case justMatch category llmResponse of
           None \<Rightarrow> acc1
         | Some g \<Rightarrow> acc1\<lparr>justifications := obj_set category (trim g) (justifications acc1)\<rparr>)"

text \<open>The body of the second \<^verbatim>\<open>forEach\<close>, the fallback for a category without a score.\<close>

definition fill_default :: "radar_result \<Rightarrow> ustring \<Rightarrow> radar_result" where
  "fill_default acc category =
     (if get_prop (radar_score acc) category = Undefined
      then acc\<lparr>radar_score := obj_set category (Num 0) (radar_score acc),
               justifications := obj_set category no_evaluation (justifications acc)\<rparr>
      else acc)"

definition extract_scores :: "ustring \<Rightarrow> radar_result" where
  "extract_scores llmResponse =
     foldl (extract_category llmResponse) \<lparr>radar_score = [], justifications = []\<rparr> RADAR_CATEGORIES"

text \<open>What \<^verbatim>\<open>generateRadarScores\<close> returns once the model has replied.\<close>

definition radar_of_reply :: "ustring \<Rightarrow> radar_result" where
  "radar_of_reply llmResponse = foldl fill_default (extract_scores llmResponse) RADAR_CATEGORIES"

text \<open>An error that is raised, with its message.\<close>

datatype js_error = Error ustring | ReferenceError ustring

fun message :: "js_error \<Rightarrow> ustring" where
  "message (Error m) = m"
| "message (ReferenceError m) = m"

text \<open>
  \<^verbatim>\<open>generateRadarScores\<close> as a whole. \<open>llm\<close> is the outcome of the call to the model:
  the reply, or the error it raised. The function catches every error and returns the
  scores the document had (or an empty object) with no justifications.
\<close>

definition or_js :: "jsval \<Rightarrow> jsval \<Rightarrow> jsval" where
  "or_js a b = (if truthy a then a else b)"

definition generateRadarScores :: "js_error + ustring \<Rightarrow> jsval props \<Rightarrow> jsval \<times> ustring props" where
  "generateRadarScores llm existingMetadata =
     (case llm of
        Inl error \<Rightarrow> (or_js (get_prop existingMetadata (js ''radar_score'')) (Obj []), [])
      | Inr llmResponse \<Rightarrow>
          (let r = radar_of_reply llmResponse in (Obj (radar_score r), justifications r)))"

section \<open>Header validation (validateSermonYAML)\<close>

definition scoreFields :: "ustring list" where
  "scoreFields =
     [js ''theological_cohesion'', js ''scriptural_integration'', js ''structural_clarity'',
      js ''liturgical_harmony'', js ''voice_fidelity'', js ''emotional_presence'',
      js ''metaphorical_resonance'', js ''closing_force'', js ''improvisational_trust'']"

fun is_number :: "jsval \<Rightarrow> bool" where
  "is_number (Num q) = True"
| "is_number NaN = True"
| "is_number PosInf = True"
| "is_number NegInf = True"
| "is_number v = False"

text \<open>\<^verbatim>\<open>score < lo\<close> and \<^verbatim>\<open>score > hi\<close> on a value whose type is number.\<close>

fun num_less :: "jsval \<Rightarrow> rat \<Rightarrow> bool" where
  "num_less (Num q) lo = (q < lo)"
| "num_less NegInf lo = True"
| "num_less v lo = False"

fun num_greater :: "jsval \<Rightarrow> rat \<Rightarrow> bool" where
  "num_greater (Num q) hi = (hi < q)"
| "num_greater PosInf hi = True"
| "num_greater v hi = False"

definition score_errors :: "jsval \<Rightarrow> ustring \<Rightarrow> ustring list" where
  "score_errors scores field =
     (let score = get_member scores field
      in if score \<noteq> Undefined \<and> (\<not> is_number score \<or> num_less score 0 \<or> num_greater score 10)
         then [js ''Invalid radar score for '' @ field @ js ''. Must be a number between 0 and 10.'']
         else [])"

record validation =
  valid :: bool
  errors :: "ustring list"

definition validateSermonYAML :: "jsval props \<Rightarrow> validation" where
  "validateSermonYAML sermonYAML =
     (let e1 = (if \<not> truthy (get_prop sermonYAML (js ''sermon_title''))
                then [js ''Missing required field: sermon_title''] else []);
          e2 = (if truthy (get_prop sermonYAML (js ''radar_score''))
                then concat (map (score_errors (get_prop sermonYAML (js ''radar_score''))) scoreFields)
                else []);
          es = e1 @ e2
      in \<lparr>valid = (es = []), errors = es\<rparr>)"

section \<open>The document rewrite (updateFileWithRadarSection)\<close>

text \<open>
  \<^verbatim>\<open>content.replace(/(^## Radar Analysis[\s\S]*?)(?=^# |\n*$)/m, '')\<close>.
  With the \<^verbatim>\<open>m\<close> flag \<^verbatim>\<open>^\<close> holds at the start of the text and after a line terminator,
  and \<^verbatim>\<open>$\<close> holds at the end of the text and before a line terminator.
  \<open>radar_ahead prev r\<close> is the lookahead at the rest \<open>r\<close>, \<open>prev\<close> being the code unit
  before it: \<^verbatim>\<open>^# \<close> there, or \<^verbatim>\<open>\n*$\<close> (which holds with no \<^verbatim>\<open>\n\<close> taken as soon as the
  rest is empty or starts with a line terminator, and cannot hold otherwise).
\<close>

definition radar_marker :: ustring where
  "radar_marker = js ''## Radar Analysis''"

definition radar_ahead :: "nat \<Rightarrow> ustring \<Rightarrow> bool" where
  "radar_ahead prev r =
     ((is_line_term prev \<and> prefix_cs (js ''# '') r \<noteq> None)
      \<or> (case r of [] \<Rightarrow> True | c # r1 \<Rightarrow> is_line_term c))"

text \<open>The lazy \<^verbatim>\<open>[\s\S]*?\<close>: what is left of the text once the lookahead holds.\<close>

fun radar_skip :: "nat \<Rightarrow> ustring \<Rightarrow> ustring" where
  "radar_skip prev [] = []"
| "radar_skip prev (c # r) = (if radar_ahead prev (c # r) then c # r else radar_skip c r)"

text \<open>
  The replacement of the first match; \<open>bol\<close> tells whether the position is the start of a
  line. Only the first match is replaced (no \<^verbatim>\<open>g\<close> flag).
\<close>

fun remove_radar :: "bool \<Rightarrow> ustring \<Rightarrow> ustring" where
  "remove_radar bol [] = []"
| "remove_radar bol (c # r) =
     (case (if bol then prefix_cs radar_marker (c # r) else None) of
        Some rest \<Rightarrow> radar_skip (last radar_marker) rest
      | None \<Rightarrow> c # remove_radar (is_line_term c) r)"

definition categories :: "ustring list" where
  "categories =
     [js ''theological_cohesion'', js ''scriptural_integration'', js ''structural_clarity'',
      js ''liturgical_harmony'', js ''voice_fidelity'', js ''emotional_presence'',
      js ''metaphorical_resonance'', js ''closing_force'', js ''improvisational_trust'']"

text \<open>\<^verbatim>\<open>category.split('_')\<close> and \<^verbatim>\<open>join(' ')\<close>.\<close>

fun split_on :: "nat \<Rightarrow> ustring \<Rightarrow> ustring list" where
  "split_on sep [] = [[]]"
| "split_on sep (c # cs) =
     (if c = sep then [] # split_on sep cs
      else (case split_on sep cs of [] \<Rightarrow> [[c]] | w # ws \<Rightarrow> (c # w) # ws))"

fun join_with :: "ustring \<Rightarrow> ustring list \<Rightarrow> ustring" where
  "join_with sep [] = []"
| "join_with sep [w] = w"
| "join_with sep (w # ws) = w @ sep @ join_with sep ws"

text \<open>
  \<^verbatim>\<open>word.charAt(0).toUpperCase() + word.slice(1)\<close>; the words are those of the category
  names above, whose letters are ASCII.
\<close>

fun capitalize :: "ustring \<Rightarrow> ustring" where
  "capitalize [] = []"
| "capitalize (c # cs) = canon c # cs"

definition formattedName :: "ustring \<Rightarrow> ustring" where
  "formattedName category = join_with [32] (map capitalize (split_on 95 category))"

text \<open>
  One pass of the \<^verbatim>\<open>forEach\<close> over \<open>categories\<close>: the line of a category, or nothing.
  \<open>to_string\<close> is the conversion of a value to text in the template literal.
\<close>

definition radar_line ::
  "(jsval \<Rightarrow> ustring) \<Rightarrow> jsval props \<Rightarrow> ustring props \<Rightarrow> ustring \<Rightarrow> ustring" where
  "radar_line to_string yamlData justs category =
     (let rs = get_prop yamlData (js ''radar_score'')
      in if truthy rs \<and> get_member rs category \<noteq> Undefined
         then (let score = get_member rs category;
                   justification = (case map_of justs category of None \<Rightarrow> [] | Some j \<Rightarrow> j)
               in js ''- **'' @ formattedName category @ js '' ('' @ to_string score @ js ''/10)**: ''
                  @ justification @ [10])
         else [])"

definition radarSection ::
  "(jsval \<Rightarrow> ustring) \<Rightarrow> jsval props \<Rightarrow> ustring props \<Rightarrow> ustring \<Rightarrow> ustring \<Rightarrow> ustring" where
  "radarSection to_string yamlData justs modelName timestamp =
     js ''## Radar Analysis'' @ [10]
     @ js ''_Generated by model: '' @ modelName @ js '' | '' @ timestamp @ js ''_'' @ [10, 10]
     @ concat (map (radar_line to_string yamlData justs) categories)
     @ [10]"

text \<open>
  The header that is dumped: \<^verbatim>\<open>radar_info\<close> set, \<^verbatim>\<open>radar_justifications\<close> left out.
\<close>

definition yamlWithoutJustifications :: "jsval props \<Rightarrow> ustring \<Rightarrow> ustring \<Rightarrow> jsval props" where
  "yamlWithoutJustifications yamlData modelName timestamp =
     filter (\<lambda>(k, v). k \<noteq> js ''radar_justifications'')
       (obj_set (js ''radar_info'')
          (Str (js ''Model: '' @ modelName @ js '' | Generated: '' @ timestamp)) yamlData)"

text \<open>
  The function. \<open>matter\<close> is the front-matter parser of the library gray-matter, giving
  the content of the parsed file, and \<open>dump\<close> is \<^verbatim>\<open>yaml.dump\<close>; each is \<open>None\<close> where it
  raises. \<open>timestamp\<close> is the reading of the clock. The result is the text written to the
  file, or \<open>None\<close> when the function returns \<^verbatim>\<open>false\<close> and writes nothing.
\<close>

definition updateFileWithRadarSection ::
  "(ustring \<Rightarrow> ustring option) \<Rightarrow> (jsval props \<Rightarrow> ustring option) \<Rightarrow> (jsval \<Rightarrow> ustring) \<Rightarrow>
   ustring \<Rightarrow> jsval props \<Rightarrow> ustring props \<Rightarrow> ustring \<Rightarrow> ustring \<Rightarrow> ustring option" where
  "updateFileWithRadarSection matter dump to_string fileContent yamlData justs modelName timestamp =
     (case matter fileContent of
        None \<Rightarrow> None
      | Some content \<Rightarrow>
          (let contentWithoutRadar = remove_radar True content;
               section = radarSection to_string yamlData justs modelName timestamp
           in case dump (yamlWithoutJustifications yamlData modelName timestamp) of
                None \<Rightarrow> None
              | Some newYaml \<Rightarrow>
                  Some (js ''---'' @ [10] @ newYaml @ js ''---'' @ [10, 10] @ section
                        @ trim contentWithoutRadar)))"

text \<open>The file after the call: overwritten, or as it was.\<close>

definition rewrite ::
  "(ustring \<Rightarrow> ustring option) \<Rightarrow> (jsval props \<Rightarrow> ustring option) \<Rightarrow> (jsval \<Rightarrow> ustring) \<Rightarrow>
   jsval props \<Rightarrow> ustring props \<Rightarrow> ustring \<Rightarrow> ustring \<Rightarrow> ustring \<Rightarrow> ustring" where
  "rewrite matter dump to_string yamlData justs modelName timestamp fileContent =
     (case updateFileWithRadarSection matter dump to_string fileContent yamlData justs modelName
             timestamp of
        None \<Rightarrow> fileContent
      | Some newContent \<Rightarrow> newContent)"

text \<open>
  The content that gray-matter gives for a file: without an opening \<^verbatim>\<open>---\<close> the whole
  text; otherwise what follows the first line break that is followed by \<^verbatim>\<open>---\<close>, less one
  leading carriage return and one leading line feed; nothing when the header is not closed.
  A word after the opening delimiter names the language of the header and is skipped.
\<close>

definition drop_one :: "nat \<Rightarrow> ustring \<Rightarrow> ustring" where
  "drop_one c s = (case s of [] \<Rightarrow> [] | d # r \<Rightarrow> if d = c then r else s)"

fun language_raw :: "ustring \<Rightarrow> ustring" where
  "language_raw [] = []"
| "language_raw [c] = []"
| "language_raw (c # d # r) =
     (if c = 10 \<or> (c = 13 \<and> d = 10) then [] else c # language_raw (d # r))"

definition matter_content :: "ustring \<Rightarrow> ustring" where
  "matter_content input =
     (let text = (case input of [] \<Rightarrow> [] | c # r \<Rightarrow> if c = 65279 then r else input)
      in case prefix_cs (js ''---'') text of
           None \<Rightarrow> text
         | Some str \<Rightarrow>
             if take 1 str = [45] then text
             else (let raw = language_raw str;
                       str1 = (if trim raw \<noteq> [] then drop (length raw) str else str)
                   in case split_at (10 # js ''---'') str1 of
                        None \<Rightarrow> []
                      | Some (block, rest) \<Rightarrow> drop_one 10 (drop_one 13 rest)))"

text \<open>
  The inputs of the idempotence test: a header with a title and one score, the
  justification of that score, the model \<^verbatim>\<open>m\<close> and the clock reading \<^verbatim>\<open>t\<close>, the same at
  every run. \<open>sample_header\<close> is the YAML of that header once \<^verbatim>\<open>radar_info\<close> is set, as
  \<^verbatim>\<open>yaml.dump\<close> writes it.
\<close>

definition sample_yaml :: "jsval props" where
  "sample_yaml =
     [(js ''sermon_title'', Str (js ''T'')),
      (js ''radar_score'', Obj [(js ''theological_cohesion'', Num 7)])]"

definition sample_justs :: "ustring props" where
  "sample_justs = [(js ''theological_cohesion'', js ''ok'')]"

definition sample_header :: ustring where
  "sample_header =
     js ''sermon_title: T'' @ [10] @ js ''radar_score:'' @ [10] @ js ''  theological_cohesion: 7'' @ [10]
     @ js ''radar_info: '' @ [39] @ js ''Model: m | Generated: t'' @ [39, 10]"

definition sample_dump :: "jsval props \<Rightarrow> ustring option" where
  "sample_dump yamlData = Some sample_header"

definition sample_to_string :: "jsval \<Rightarrow> ustring" where
  "sample_to_string v = js ''7''"

definition sample_matter :: "ustring \<Rightarrow> ustring option" where
  "sample_matter fileContent = Some (matter_content fileContent)"

definition sample_rewrite :: "ustring \<Rightarrow> ustring" where
  "sample_rewrite fileContent =
     rewrite sample_matter sample_dump sample_to_string sample_yaml sample_justs (js ''m'') (js ''t'')
       fileContent"

section \<open>Structured-object extraction and merge (generateSermonMetadata)\<close>






text \<open>Decimal numerals, for the index keys of an array or a string.\<close>

fun dec :: "nat \<Rightarrow> ustring" where
  "dec n = (if n < 10 then [48 + n] else dec (n div 10) @ [48 + n mod 10])"

text \<open>The own enumerable properties of a value, in order.\<close>

fun own_props :: "jsval \<Rightarrow> jsval props" where
  "own_props (Obj ps) = ps"
| "own_props (Arr xs) = zip (map dec [0..<length xs]) xs"
| "own_props (Str s) = zip (map dec [0..<length s]) (map (\<lambda>c. Str [c]) s)"
| "own_props v = []"

text \<open>\<^verbatim>\<open>{...acc, ...v}\<close>: every own key of \<open>v\<close> in order is set to the value \<open>v\<close> has for it.\<close>

definition spread :: "jsval props \<Rightarrow> jsval \<Rightarrow> jsval props" where
  "spread acc v = foldl (\<lambda>obj k. obj_set k (get_prop (own_props v) k) obj) acc (map fst (own_props v))"

text \<open>
  The object literal \<open>mergedMetadata\<close>, for a parsed value on which property access does
  not raise (any value but \<^verbatim>\<open>null\<close>).
\<close>

definition merge_metadata :: "jsval \<Rightarrow> jsval props \<Rightarrow> jsval props" where
  "merge_metadata metadata existingMetadata =
     (let m0 = spread (spread [] metadata) (Obj existingMetadata);
          m1 = obj_set (js ''bolt'')
                 (or_js (get_member metadata (js ''bolt'')) (get_prop existingMetadata (js ''bolt''))) m0;
          m2 = obj_set (js ''themes'')
                 (or_js (get_member metadata (js ''themes'')) (get_prop existingMetadata (js ''themes''))) m1;
          m3 = obj_set (js ''metaphors'')
                 (or_js (get_member metadata (js ''metaphors''))
                    (get_prop existingMetadata (js ''metaphors''))) m2;
          m4 = obj_set (js ''radar_score'')
                 (Obj (spread
                         (spread [] (or_js (get_prop existingMetadata (js ''radar_score'')) (Obj [])))
                         (or_js (get_member metadata (js ''radar_score'')) (Obj [])))) m3
      in obj_set (js ''radar_justifications'')
           (or_js (get_prop existingMetadata (js ''radar_justifications'')) (Obj [])) m4)"


text \<open>The example of the specification for the merge.\<close>

definition spec_existing :: "jsval props" where
  "spec_existing = [(js ''title'', Str (js ''A'')), (js ''themes'', Arr [Str (js ''x'')])]"

definition spec_extracted :: "jsval props" where
  "spec_extracted =
     [(js ''title'', Str (js ''B'')), (js ''themes'', Arr [Str (js ''y'')]),
      (js ''scores'', Obj [(js ''cat1'', Num 7)])]"



section \<open>The resilient call (callClaudeWithRetry)\<close>

record api_error =
  status :: "nat option"
  x_should_retry :: bool

datatype thrown = Provider api_error | NotConfigured

record call_outcome =
  outcome :: "thrown + ustring"
  waits :: "nat list"
  calls :: nat

text \<open>
  The \<^verbatim>\<open>while (true)\<close> loop. \<open>send n\<close> is what the provider does at its call number \<open>n\<close>
  (from 0); the loop makes one call per pass and counts the failed ones in \<open>retries\<close>, so
  the pass with \<open>retries = n\<close> makes call \<open>n\<close>. \<open>ws\<close> collects the waits in milliseconds.
\<close>

function claude_loop ::
  "(nat \<Rightarrow> api_error + ustring) \<Rightarrow> nat \<Rightarrow> nat \<Rightarrow> nat list \<Rightarrow> call_outcome" where
  "claude_loop send maxRetries retries ws =
     (case send retries of
        Inr response \<Rightarrow> \<lparr>outcome = Inr response, waits = ws, calls = retries + 1\<rparr>
      | Inl error \<Rightarrow>
          if status error = Some 429 \<and> retries < maxRetries
          then claude_loop send maxRetries (retries + 1) (ws @ [2000 * 2 ^ retries])
          else if status error = Some 529 \<and> retries < maxRetries
          then claude_loop send maxRetries (retries + 1) (ws @ [5000 * 2 ^ retries])
          else if x_should_retry error \<and> retries < maxRetries
          then claude_loop send maxRetries (retries + 1) (ws @ [3000 * 2 ^ retries])
          else \<lparr>outcome = Inl (Provider error), waits = ws, calls = retries + 1\<rparr>)"
  by pat_completeness auto
termination
  by (relation "measure (\<lambda>(send, maxRetries, retries, ws). maxRetries - retries)") auto

declare claude_loop.simps [simp del]

text \<open>The simulated provider of the retry test: overloaded (status 529) at every call.\<close>

definition always_overloaded :: "nat \<Rightarrow> api_error + ustring" where
  "always_overloaded n = Inl \<lparr>status = Some 529, x_should_retry = False\<rparr>"

text \<open>
  The function: through OpenRouter one call and no retry; without a client for the
  provider an error before any call; otherwise the loop.
\<close>

definition callClaudeWithRetry ::
  "bool \<Rightarrow> bool \<Rightarrow> (api_error + ustring) \<Rightarrow> (nat \<Rightarrow> api_error + ustring) \<Rightarrow> nat \<Rightarrow> call_outcome" where
  "callClaudeWithRetry shouldUseOpenRouter anthropic router send maxRetries =
     (if shouldUseOpenRouter
      then (case router of
              Inl error \<Rightarrow> \<lparr>outcome = Inl (Provider error), waits = [], calls = 1\<rparr>
            | Inr response \<Rightarrow> \<lparr>outcome = Inr response, waits = [], calls = 1\<rparr>)
      else if \<not> anthropic then \<lparr>outcome = Inl NotConfigured, waits = [], calls = 0\<rparr>
      else claude_loop send maxRetries 0 [])"

section \<open>One document and a directory of documents (processSermonFile, processSermonDirectory)\<close>

text \<open>
  The radar step of \<^verbatim>\<open>processSermonFile\<close>. \<open>gen\<close> is the call of \<^verbatim>\<open>generateRadarScores\<close>
  seen as an operation that may raise, on the model asked for and a log \<open>l\<close> of the calls
  made. In the \<^verbatim>\<open>catch\<close>, the arguments of the second call are evaluated before the call:
  \<^verbatim>\<open>{...llmOptions, model: fallbackModelName}\<close> reads \<^verbatim>\<open>llmOptions\<close>, which is bound nowhere in
  the function or the module, so a reference error is raised there, caught by the inner
  \<^verbatim>\<open>catch\<close> and raised again.
\<close>

definition radar_step ::
  "(ustring option \<Rightarrow> 'l \<Rightarrow> (js_error + 'r) \<times> 'l) \<Rightarrow> ustring option \<Rightarrow> bool \<Rightarrow> 'l \<Rightarrow>
   (js_error + 'r) \<times> 'l" where
  "radar_step gen modelForRadar fallbackModel l =
     (case gen modelForRadar l of
        (Inr r, l1) \<Rightarrow> (Inr r, l1)
      | (Inl error, l1) \<Rightarrow>
          if fallbackModel \<and> message error \<noteq> []
          then (Inl (ReferenceError (js ''llmOptions is not defined'')), l1)
          else (Inl error, l1))"

text \<open>
  The operation the step is run on: \<^verbatim>\<open>generateRadarScores\<close>, which asks the provider \<open>llm\<close>
  for the model once and raises nothing. The log holds the models asked for.
\<close>

definition radar_operation ::
  "(ustring option \<Rightarrow> js_error + ustring) \<Rightarrow> jsval props \<Rightarrow> ustring option \<Rightarrow> ustring option list \<Rightarrow>
   (js_error + jsval \<times> ustring props) \<times> ustring option list" where
  "radar_operation llm existingMetadata model l =
     (Inr (generateRadarScores (llm model) existingMetadata), l @ [model])"

text \<open>
  A provider whose every call fails, and an operation that raises what the provider
  raised, for the fallback test.
\<close>

definition failing_llm :: "ustring option \<Rightarrow> js_error + ustring" where
  "failing_llm model = Inl (Error (js ''overloaded''))"

definition raising_operation ::
  "ustring option \<Rightarrow> ustring option list \<Rightarrow> (js_error + jsval \<times> ustring props) \<times> ustring option list" where
  "raising_operation model l = (Inl (Error (js ''overloaded'')), l @ [model])"










section \<open>Evaluating texts\<close>

lemma js_Nil: "js [] = []"
  by (simp add: js_def)

lemma js_Cons: "js (c # cs) = of_char c # js cs"
  by (simp add: js_def)

lemma label_codes:
  "js ''SCORE '' = [83, 67, 79, 82, 69, 32]"
  "js '':'' = [58]"
  "js ''JUSTIFICATION '' = [74, 85, 83, 84, 73, 70, 73, 67, 65, 84, 73, 79, 78, 32]"
  "js ''SCORE'' = [83, 67, 79, 82, 69]"
  "js ''JUSTIFICATION'' = [74, 85, 83, 84, 73, 70, 73, 67, 65, 84, 73, 79, 78]"
  by (simp_all add: js_Cons js_Nil)

text \<open>
  A scan moves on at once where the first letter of the label is not there. With the
  congruence rule the simplifier does not walk through the rest of the text at each step.
\<close>

lemma first_match_cong: "f = g \<Longrightarrow> first_match f s = first_match g s"
  by simp

lemma score_scan_miss:
  "canon c \<noteq> 83 \<Longrightarrow> first_match (score_at cat) (c # cs) = first_match (score_at cat) cs"
  by (simp add: score_at_def js_def canon_def)

lemma score_scan_hit:
  "canon c = 83 \<Longrightarrow> first_match (score_at cat) (c # cs) =
     (case score_at cat (c # cs) of Some r \<Rightarrow> Some r | None \<Rightarrow> first_match (score_at cat) cs)"
  by simp

lemma just_scan_miss:
  "canon c \<noteq> 74 \<Longrightarrow> first_match (just_at cat) (c # cs) = first_match (just_at cat) cs"
  by (simp add: just_at_def js_def canon_def)

lemma just_scan_hit:
  "canon c = 74 \<Longrightarrow> first_match (just_at cat) (c # cs) =
     (case just_at cat (c # cs) of Some r \<Rightarrow> Some r | None \<Rightarrow> first_match (just_at cat) cs)"
  by simp

lemmas scan_eval =
  scoreMatch_def justMatch_def score_scan_miss score_scan_hit just_scan_miss just_scan_hit
  canon_def score_at_def just_at_def just_ahead_def is_space_def is_digit_def is_line_term_def
  label_codes Let_def trim_def digits_val_def parseFloat_def

section \<open>Properties of the labeled-score extraction\<close>

lemma map_of_obj_set: "map_of (obj_set k v ps) = (map_of ps)(k \<mapsto> v)"
  by (induction k v ps rule: obj_set.induct) (auto simp: fun_eq_iff)

lemma get_prop_obj_set: "get_prop (obj_set k v ps) k' = (if k' = k then v else get_prop ps k')"
  by (simp add: get_prop_def map_of_obj_set)

lemma extract_category_score:
  "map_of (radar_score (extract_category r acc a)) c =
     (if c = a \<and> scoreMatch a r \<noteq> None then Some (Num (parseFloat (the (scoreMatch a r))))
      else map_of (radar_score acc) c)"
  by (auto simp: extract_category_def Let_def map_of_obj_set split: option.splits)

lemma extract_category_just:
  "map_of (justifications (extract_category r acc a)) c =
     (if c = a \<and> justMatch a r \<noteq> None then Some (trim (the (justMatch a r)))
      else map_of (justifications acc) c)"
  by (auto simp: extract_category_def Let_def map_of_obj_set split: option.splits)

lemma extract_fold_score:
  "map_of (radar_score (foldl (extract_category r) acc cs)) c =
     (if c \<in> set cs \<and> scoreMatch c r \<noteq> None then Some (Num (parseFloat (the (scoreMatch c r))))
      else map_of (radar_score acc) c)"
  by (induction cs arbitrary: acc) (auto simp: extract_category_score)

lemma extract_fold_just:
  "map_of (justifications (foldl (extract_category r) acc cs)) c =
     (if c \<in> set cs \<and> justMatch c r \<noteq> None then Some (trim (the (justMatch c r)))
      else map_of (justifications acc) c)"
  by (induction cs arbitrary: acc) (auto simp: extract_category_just)

lemma fill_default_score:
  "get_prop (radar_score (fill_default acc a)) c =
     (if c = a \<and> get_prop (radar_score acc) c = Undefined then Num 0
      else get_prop (radar_score acc) c)"
  by (auto simp: fill_default_def get_prop_obj_set)

lemma fill_default_just:
  "map_of (justifications (fill_default acc a)) c =
     (if c = a \<and> get_prop (radar_score acc) c = Undefined then Some no_evaluation
      else map_of (justifications acc) c)"
  by (auto simp: fill_default_def map_of_obj_set)

lemma fill_fold_score:
  "get_prop (radar_score (foldl fill_default acc cs)) c =
     (if c \<in> set cs \<and> get_prop (radar_score acc) c = Undefined then Num 0
      else get_prop (radar_score acc) c)"
  by (induction cs arbitrary: acc) (auto simp: fill_default_score)

lemma fill_fold_just:
  "map_of (justifications (foldl fill_default acc cs)) c =
     (if c \<in> set cs \<and> get_prop (radar_score acc) c = Undefined then Some no_evaluation
      else map_of (justifications acc) c)"
  by (induction cs arbitrary: acc) (auto simp: fill_default_score fill_default_just)

lemma extract_scores_score:
  "get_prop (radar_score (extract_scores r)) c =
     (if c \<in> set RADAR_CATEGORIES \<and> scoreMatch c r \<noteq> None
      then Num (parseFloat (the (scoreMatch c r))) else Undefined)"
  by (simp add: extract_scores_def get_prop_def extract_fold_score)

lemma extract_scores_just:
  "map_of (justifications (extract_scores r)) c =
     (if c \<in> set RADAR_CATEGORIES \<and> justMatch c r \<noteq> None
      then Some (trim (the (justMatch c r))) else None)"
  by (simp add: extract_scores_def extract_fold_just)

lemma radar_of_reply_score:
  "get_prop (radar_score (radar_of_reply r)) c =
     (if c \<in> set RADAR_CATEGORIES
      then (case scoreMatch c r of None \<Rightarrow> Num 0 | Some g \<Rightarrow> Num (parseFloat g))
      else Undefined)"
  by (auto simp: radar_of_reply_def fill_fold_score extract_scores_score split: option.splits)

lemma radar_of_reply_just:
  "map_of (justifications (radar_of_reply r)) c =
     (if c \<in> set RADAR_CATEGORIES
      then (case scoreMatch c r of
              None \<Rightarrow> Some no_evaluation
            | Some g \<Rightarrow> map_option trim (justMatch c r))
      else None)"
  by (auto simp: radar_of_reply_def fill_fold_just extract_scores_score extract_scores_just
           split: option.splits)





text \<open>
  C5, as the code has it. For every reply and each of the nine categories whose SCORE
  line is absent or holds no number, the first loop of \<^verbatim>\<open>generateRadarScores\<close> leaves the
  score unset, and the second loop of the same function sets it to 0 with the
  justification "No evaluation provided." before the function returns.
\<close>

theorem missing_score_unset_then_defaulted:
  assumes "category \<in> set RADAR_CATEGORIES" and "scoreMatch category reply = None"
  shows "get_prop (radar_score (extract_scores reply)) category = Undefined \<and>
         get_prop (radar_score (radar_of_reply reply)) category = Num 0 \<and>
         map_of (justifications (radar_of_reply reply)) category = Some no_evaluation \<and>
         generateRadarScores (Inr reply) existingMetadata =
           (Obj (radar_score (radar_of_reply reply)), justifications (radar_of_reply reply))"
  using assms
  by (simp add: extract_scores_score radar_of_reply_score radar_of_reply_just
        generateRadarScores_def Let_def)

theorem missing_score_unset_then_defaulted_witness:
  "js ''closing_force'' \<in> set RADAR_CATEGORIES \<and>
   scoreMatch (js ''closing_force'') (js ''SCORE closing_force: n/a'') = None \<and>
   get_prop (radar_score (extract_scores (js ''SCORE closing_force: n/a''))) (js ''closing_force'')
     = Undefined \<and>
   get_prop (radar_score (radar_of_reply (js ''SCORE closing_force: n/a''))) (js ''closing_force'')
     = Num 0 \<and>
   map_of (justifications (radar_of_reply (js ''SCORE closing_force: n/a''))) (js ''closing_force'')
     = Some no_evaluation \<and>
   generateRadarScores (Inr (js ''SCORE closing_force: n/a'')) [] =
     (Obj (radar_score (radar_of_reply (js ''SCORE closing_force: n/a''))),
      justifications (radar_of_reply (js ''SCORE closing_force: n/a'')))"
proof -
  have h: "js ''closing_force'' \<in> set RADAR_CATEGORIES"
    by (simp add: RADAR_CATEGORIES_def)
  have s: "scoreMatch (js ''closing_force'') (js ''SCORE closing_force: n/a'') = None"
    apply (simp add: js_Cons js_Nil)
    apply (simp add: scan_eval del: first_match.simps(2) cong: first_match_cong)
    done
  from missing_score_unset_then_defaulted [OF h s, of "[]"] h s
  show ?thesis by simp
qed

text \<open>
  C5 as stated fails: what \<^verbatim>\<open>generateRadarScores\<close> returns for a reply that leaves a
  category out is what it returns for a reply that scores the category 0 with the words
  of the default, so its caller cannot tell the two apart.
\<close>

theorem omitted_and_zero_indistinguishable_counterexample:
  "scoreMatch (js ''theological_cohesion'') (js []) = None \<and>
   scoreMatch (js ''theological_cohesion'')
     (js ''SCORE theological_cohesion: 0\<newline>JUSTIFICATION theological_cohesion: No evaluation provided.'')
     = Some (js ''0'') \<and>
   radar_of_reply
     (js ''SCORE theological_cohesion: 0\<newline>JUSTIFICATION theological_cohesion: No evaluation provided.'')
     = radar_of_reply (js [])"
proof -
  have a: "scoreMatch (js ''theological_cohesion'') (js []) = None"
    by (simp add: js_Nil scoreMatch_def score_at_def label_codes)
  have b: "scoreMatch (js ''theological_cohesion'')
     (js ''SCORE theological_cohesion: 0\<newline>JUSTIFICATION theological_cohesion: No evaluation provided.'')
     = Some (js ''0'')"
    apply (simp add: js_Cons js_Nil)
    apply (simp add: scan_eval del: first_match.simps(2) cong: first_match_cong)
    done
  have c: "radar_of_reply
     (js ''SCORE theological_cohesion: 0\<newline>JUSTIFICATION theological_cohesion: No evaluation provided.'')
     = radar_of_reply (js [])"
    apply (simp add: js_Cons js_Nil)
    apply (simp add: radar_of_reply_def extract_scores_def extract_category_def fill_default_def
             get_prop_def no_evaluation_def RADAR_CATEGORIES_def js_Cons js_Nil scan_eval
           del: first_match.simps(2) cong: first_match_cong)
    done
  from a b c show ?thesis by simp
qed

section \<open>The two lists of category names\<close>

lemma embodied_not_rendered: "js ''embodied_authority'' \<notin> set categories"
  by (simp add: categories_def js_def)

lemma improvisational_not_extracted: "js ''improvisational_trust'' \<notin> set RADAR_CATEGORIES"
  by (simp add: RADAR_CATEGORIES_def js_def)

lemma radar_line_other_key:
  "c \<noteq> k \<Longrightarrow>
   radar_line f (obj_set (js ''radar_score'') (Obj (obj_set k v scores)) y) (obj_set k j justs) c =
   radar_line f (obj_set (js ''radar_score'') (Obj scores) y) justs c"
  by (simp add: radar_line_def get_prop_obj_set map_of_obj_set)

lemma radarSection_other_key:
  assumes "k \<notin> set categories"
  shows "radarSection f (obj_set (js ''radar_score'') (Obj (obj_set k v scores)) y) (obj_set k j justs) m t =
         radarSection f (obj_set (js ''radar_score'') (Obj scores) y) justs m t"
proof -
  have eq: "map (radar_line f (obj_set (js ''radar_score'') (Obj (obj_set k v scores)) y)
                   (obj_set k j justs)) categories
          = map (radar_line f (obj_set (js ''radar_score'') (Obj scores) y) justs) categories"
    using assms by (intro map_cong refl radar_line_other_key) auto
  show ?thesis unfolding radarSection_def eq by (rule refl)
qed

lemma score_errors_other_key:
  "c \<noteq> k \<Longrightarrow> score_errors (Obj (obj_set k v scores)) c = score_errors (Obj scores) c"
  by (simp add: score_errors_def get_prop_obj_set)

lemma validate_other_key:
  assumes "k \<notin> set scoreFields"
  shows "validateSermonYAML (obj_set (js ''radar_score'') (Obj (obj_set k v scores)) y) =
         validateSermonYAML (obj_set (js ''radar_score'') (Obj scores) y)"
proof -
  have eq: "map (score_errors (Obj (obj_set k v scores))) scoreFields
          = map (score_errors (Obj scores)) scoreFields"
    using assms by (intro map_cong refl score_errors_other_key) auto
  show ?thesis unfolding validateSermonYAML_def by (simp add: get_prop_obj_set eq)
qed

lemma formattedName_improvisational:
  "formattedName (js ''improvisational_trust'') = js ''Improvisational Trust''"
  by (simp add: formattedName_def js_Cons js_Nil canon_def)

lemma improvisational_line:
  "v \<noteq> Undefined \<Longrightarrow>
   radar_line f (obj_set (js ''radar_score'') (Obj (obj_set (js ''improvisational_trust'') v scores)) y)
     justs (js ''improvisational_trust'') =
   js ''- **'' @ js ''Improvisational Trust'' @ js '' ('' @ f v @ js ''/10)**: ''
     @ (case map_of justs (js ''improvisational_trust'') of None \<Rightarrow> [] | Some j \<Rightarrow> j) @ [10]"
  by (simp add: radar_line_def get_prop_obj_set formattedName_improvisational)

lemma improvisational_checked:
  "v \<noteq> Undefined \<Longrightarrow> \<not> is_number v \<or> num_less v 0 \<or> num_greater v 10 \<Longrightarrow>
   \<not> valid (validateSermonYAML
      (obj_set (js ''radar_score'') (Obj (obj_set (js ''improvisational_trust'') v scores)) y))"
  by (simp add: validateSermonYAML_def get_prop_obj_set scoreFields_def score_errors_def)

text \<open>
  C10. The nine names of the extraction end with embodied_authority, the nine names of
  validation and of rendering are the same list and end with improvisational_trust; the
  first eight agree. For every reply the extraction produces a score for
  embodied_authority and none for improvisational_trust. The rendered Radar Analysis
  section and the result of validation do not depend on the embodied_authority entry:
  giving it any value and any justification changes neither. An improvisational_trust
  entry is rendered as a line of the section and is range-checked by validation.
\<close>

theorem category_names_disagree:
  "RADAR_CATEGORIES \<noteq> categories \<and> scoreFields = categories \<and>
   butlast RADAR_CATEGORIES = butlast categories \<and>
   last RADAR_CATEGORIES = js ''embodied_authority'' \<and>
   last categories = js ''improvisational_trust'' \<and>
   get_prop (radar_score (radar_of_reply reply)) (js ''embodied_authority'') \<noteq> Undefined \<and>
   get_prop (radar_score (radar_of_reply reply)) (js ''improvisational_trust'') = Undefined \<and>
   radarSection f
     (obj_set (js ''radar_score'') (Obj (obj_set (js ''embodied_authority'') v scores)) y)
     (obj_set (js ''embodied_authority'') j justs) m t =
   radarSection f (obj_set (js ''radar_score'') (Obj scores) y) justs m t \<and>
   validateSermonYAML
     (obj_set (js ''radar_score'') (Obj (obj_set (js ''embodied_authority'') v scores)) y) =
   validateSermonYAML (obj_set (js ''radar_score'') (Obj scores) y) \<and>
   (v \<noteq> Undefined \<longrightarrow>
      radar_line f
        (obj_set (js ''radar_score'') (Obj (obj_set (js ''improvisational_trust'') v scores)) y)
        justs (js ''improvisational_trust'') =
      js ''- **'' @ js ''Improvisational Trust'' @ js '' ('' @ f v @ js ''/10)**: ''
        @ (case map_of justs (js ''improvisational_trust'') of None \<Rightarrow> [] | Some j \<Rightarrow> j) @ [10]) \<and>
   (v \<noteq> Undefined \<and> (\<not> is_number v \<or> num_less v 0 \<or> num_greater v 10) \<longrightarrow>
      \<not> valid (validateSermonYAML
          (obj_set (js ''radar_score'') (Obj (obj_set (js ''improvisational_trust'') v scores)) y)))"
proof -
  have neq: "js ''embodied_authority'' \<noteq> js ''improvisational_trust''"
    by (simp add: js_def)
  have l: "RADAR_CATEGORIES \<noteq> categories" "scoreFields = categories"
    "butlast RADAR_CATEGORIES = butlast categories"
    "last RADAR_CATEGORIES = js ''embodied_authority''"
    "last categories = js ''improvisational_trust''"
    by (simp_all add: RADAR_CATEGORIES_def categories_def scoreFields_def neq)
  have ea: "js ''embodied_authority'' \<in> set RADAR_CATEGORIES"
    by (simp add: RADAR_CATEGORIES_def)
  have e1: "get_prop (radar_score (radar_of_reply reply)) (js ''embodied_authority'') \<noteq> Undefined"
    by (simp add: radar_of_reply_score ea split: option.splits)
  have e2: "get_prop (radar_score (radar_of_reply reply)) (js ''improvisational_trust'') = Undefined"
    by (simp add: radar_of_reply_score improvisational_not_extracted)
  have nf: "js ''embodied_authority'' \<notin> set scoreFields"
    using embodied_not_rendered by (simp add: l(2))
  show ?thesis
    using l e1 e2 improvisational_line [of v f scores y justs]
      improvisational_checked [of v scores y]
    by (simp only: radarSection_other_key [OF embodied_not_rendered]
          validate_other_key [OF nf] simp_thms) blast
qed

theorem category_names_disagree_witness:
  "Num 11 \<noteq> Undefined \<and> num_greater (Num 11) 10 \<and>
   radar_line (\<lambda>v. js ''11'')
     (obj_set (js ''radar_score'') (Obj (obj_set (js ''improvisational_trust'') (Num 11) [])) [])
     [] (js ''improvisational_trust'') =
   js ''- **'' @ js ''Improvisational Trust'' @ js '' ('' @ js ''11'' @ js ''/10)**: '' @ [] @ [10] \<and>
   \<not> valid (validateSermonYAML
       (obj_set (js ''radar_score'') (Obj (obj_set (js ''improvisational_trust'') (Num 11) [])) [])) \<and>
   validateSermonYAML
     (obj_set (js ''radar_score'') (Obj (obj_set (js ''embodied_authority'') (Num 11) [])) []) =
   validateSermonYAML (obj_set (js ''radar_score'') (Obj []) [])"
  using category_names_disagree [of "[]" "\<lambda>v. js ''11''" "Num 11" "[]" "[]" "[]" "[]" "[]" "[]"]
  by simp

section \<open>The retry loop\<close>

lemma claude_loop_overloaded:
  assumes "\<forall>n. \<exists>e. send n = Inl e \<and> status e = Some 529"
  shows "retries \<le> maxRetries \<Longrightarrow>
         \<exists>e. send maxRetries = Inl e \<and>
             claude_loop send maxRetries retries ws =
               \<lparr>outcome = Inl (Provider e),
                waits = ws @ map (\<lambda>k. 5000 * 2 ^ k) [retries..<maxRetries],
                calls = maxRetries + 1\<rparr>"
proof (induction "maxRetries - retries" arbitrary: retries ws)
  case 0
  then have eq: "retries = maxRetries" by simp
  from assms obtain e where e: "send maxRetries = Inl e" "status e = Some 529" by blast
  show ?case
    by (subst claude_loop.simps) (simp add: eq e)
next
  case (Suc d)
  then have lt: "retries < maxRetries" by simp
  from assms obtain e where e: "send retries = Inl e" "status e = Some 529" by blast
  have d: "d = maxRetries - (retries + 1)" using Suc.hyps(2) by simp
  have le: "retries + 1 \<le> maxRetries" using lt by simp
  from Suc.hyps(1) [OF d le, of "ws @ [5000 * 2 ^ retries]"]
  obtain e' where e': "send maxRetries = Inl e'"
    "claude_loop send maxRetries (retries + 1) (ws @ [5000 * 2 ^ retries]) =
       \<lparr>outcome = Inl (Provider e'),
        waits = (ws @ [5000 * 2 ^ retries]) @ map (\<lambda>k. 5000 * 2 ^ k) [retries + 1..<maxRetries],
        calls = maxRetries + 1\<rparr>" by blast
  have up: "[retries..<maxRetries] = retries # [retries + 1..<maxRetries]"
    using lt by (simp add: upt_rec)
  show ?case
    by (subst claude_loop.simps) (use e lt e' up in simp)
qed

lemma waits_increasing: "sorted_wrt (<) (map (\<lambda>k. 5000 * (2::nat) ^ k) [0..<m])"
  by (simp add: sorted_wrt_map sorted_wrt_iff_nth_less)

lemma always_overloaded_529: "\<forall>n. \<exists>e. always_overloaded n = Inl e \<and> status e = Some 529"
  by (simp add: always_overloaded_def)

text \<open>
  C7, as the code has it. When the provider answers every call with status 529, the
  direct call (not through OpenRouter) makes \<open>maxRetries + 1\<close> calls, the first one and
  \<open>maxRetries\<close> retries, waits 5000, 10000, 20000, ... milliseconds between them (strictly
  increasing), and then raises the error of the provider's last answer as it is.
\<close>

theorem overloaded_retries_then_raw_error:
  assumes "\<forall>n. \<exists>e. send n = Inl e \<and> status e = Some 529"
  shows "calls (callClaudeWithRetry False True router send maxRetries) = maxRetries + 1 \<and>
         waits (callClaudeWithRetry False True router send maxRetries) =
           map (\<lambda>k. 5000 * 2 ^ k) [0..<maxRetries] \<and>
         sorted_wrt (<) (waits (callClaudeWithRetry False True router send maxRetries)) \<and>
         (\<exists>e. send maxRetries = Inl e \<and>
              outcome (callClaudeWithRetry False True router send maxRetries) = Inl (Provider e))"
proof -
  from claude_loop_overloaded [OF assms, of 0 maxRetries "[]"]
  obtain e where e: "send maxRetries = Inl e"
    "claude_loop send maxRetries 0 [] =
       \<lparr>outcome = Inl (Provider e), waits = [] @ map (\<lambda>k. 5000 * 2 ^ k) [0..<maxRetries],
        calls = maxRetries + 1\<rparr>" by blast
  show ?thesis
    using waits_increasing [of maxRetries] by (simp add: callClaudeWithRetry_def e)
qed

theorem overloaded_retries_then_raw_error_witness:
  "(\<forall>n. \<exists>e. always_overloaded n = Inl e \<and> status e = Some 529) \<and>
   calls (callClaudeWithRetry False True (Inr []) always_overloaded 2) = 3 \<and>
   waits (callClaudeWithRetry False True (Inr []) always_overloaded 2) = [5000, 10000] \<and>
   outcome (callClaudeWithRetry False True (Inr []) always_overloaded 2) =
     Inl (Provider \<lparr>status = Some 529, x_should_retry = False\<rparr>)"
proof -
  from overloaded_retries_then_raw_error [OF always_overloaded_529, of "Inr []" 2]
  obtain e where c: "calls (callClaudeWithRetry False True (Inr []) always_overloaded 2) = 2 + 1"
    and w: "waits (callClaudeWithRetry False True (Inr []) always_overloaded 2) =
              map (\<lambda>k. 5000 * 2 ^ k) [0..<2]"
    and e: "always_overloaded 2 = Inl e"
      "outcome (callClaudeWithRetry False True (Inr []) always_overloaded 2) = Inl (Provider e)"
    by blast
  have u: "[0..<2] = [0, Suc 0]"
    by (simp add: upt_rec numeral_2_eq_2)
  from e(1) have "e = \<lparr>status = Some 529, x_should_retry = False\<rparr>"
    by (simp add: always_overloaded_def)
  with c w e(2) u always_overloaded_529 show ?thesis
    by simp
qed

text \<open>
  C7 as stated fails: with the maximum set to 5 the provider is called 6 times, and what
  the caller gets is the provider's own error, not an error of another kind.
\<close>

theorem overloaded_six_calls_raw_error_counterexample:
  "calls (callClaudeWithRetry False True (Inr []) always_overloaded 5) = 6 \<and>
   outcome (callClaudeWithRetry False True (Inr []) always_overloaded 5) =
     Inl (Provider \<lparr>status = Some 529, x_should_retry = False\<rparr>) \<and>
   always_overloaded 5 = Inl \<lparr>status = Some 529, x_should_retry = False\<rparr>"
proof -
  from claude_loop_overloaded [OF always_overloaded_529, of 0 5 "[]"]
  obtain e where e: "always_overloaded 5 = Inl e"
    "claude_loop always_overloaded 5 0 [] =
       \<lparr>outcome = Inl (Provider e), waits = [] @ map (\<lambda>k. 5000 * 2 ^ k) [0..<5],
        calls = 5 + 1\<rparr>" by blast
  from e(1) have "e = \<lparr>status = Some 529, x_should_retry = False\<rparr>"
    by (simp add: always_overloaded_def)
  with e show ?thesis
    by (simp add: callClaudeWithRetry_def always_overloaded_def)
qed

section \<open>The batch\<close>












section \<open>The merge\<close>

lemma get_prop_absent: "k \<notin> fst ` set ps \<Longrightarrow> get_prop ps k = Undefined"
proof -
  assume "k \<notin> fst ` set ps"
  then have "map_of ps k = None" by (simp add: map_of_eq_None_iff)
  then show ?thesis by (simp add: get_prop_def)
qed

lemma get_prop_fold_set:
  "get_prop (foldl (\<lambda>obj k. obj_set k (g k) obj) acc ks) k =
     (if k \<in> set ks then g k else get_prop acc k)"
  by (induction ks arbitrary: acc) (auto simp: get_prop_obj_set)

lemma get_prop_spread:
  "get_prop (spread acc v) k =
     (if k \<in> fst ` set (own_props v) then get_prop (own_props v) k else get_prop acc k)"
  by (simp add: spread_def get_prop_fold_set)

lemma special_keys_distinct:
  "distinct [js ''bolt'', js ''themes'', js ''metaphors'', js ''radar_score'', js ''radar_justifications'']"
  by (simp add: js_def)

lemma merged_plain_key:
  assumes "k \<notin> {js ''bolt'', js ''themes'', js ''metaphors'', js ''radar_score'', js ''radar_justifications''}"
  shows "get_prop (merge_metadata (Obj extracted) existing) k =
           (if k \<in> fst ` set existing then get_prop existing k else get_prop extracted k)"
  using assms
  by (simp add: merge_metadata_def Let_def get_prop_obj_set get_prop_spread get_prop_absent
        get_prop_def [of "[]"])

lemma merged_narrative_key:
  assumes "k \<in> {js ''bolt'', js ''themes'', js ''metaphors''}"
  shows "get_prop (merge_metadata (Obj extracted) existing) k =
           or_js (get_prop extracted k) (get_prop existing k)"
  using assms special_keys_distinct
  by (auto simp: merge_metadata_def Let_def get_prop_obj_set)

lemma merged_scores:
  "get_prop (merge_metadata (Obj extracted) existing) (js ''radar_score'') =
     Obj (spread (spread [] (or_js (get_prop existing (js ''radar_score'')) (Obj [])))
                 (or_js (get_prop extracted (js ''radar_score'')) (Obj [])))"
  using special_keys_distinct
  by (simp add: merge_metadata_def Let_def get_prop_obj_set)

text \<open>
  C3, as the code has it. For every pair of existing and extracted metadata objects:
  a key other than bolt, themes, metaphors, radar_score and radar_justifications (the
  title among them) has the existing value whenever the existing object has the key at
  all, empty or not, and the extracted value otherwise; bolt, themes and metaphors have
  the extracted value whenever it is truthy, and the existing value otherwise; the score
  map is the existing one overridden, category by category, by the extracted one.
\<close>

theorem merge_precedence:
  "(k \<notin> {js ''bolt'', js ''themes'', js ''metaphors'', js ''radar_score'', js ''radar_justifications''} \<longrightarrow>
      get_prop (merge_metadata (Obj extracted) existing) k =
        (if k \<in> fst ` set existing then get_prop existing k else get_prop extracted k)) \<and>
   (k \<in> {js ''bolt'', js ''themes'', js ''metaphors''} \<longrightarrow>
      get_prop (merge_metadata (Obj extracted) existing) k =
        (if truthy (get_prop extracted k) then get_prop extracted k else get_prop existing k)) \<and>
   (\<exists>scores.
      get_prop (merge_metadata (Obj extracted) existing) (js ''radar_score'') = Obj scores \<and>
      (\<forall>c. get_prop scores c =
         (if c \<in> fst ` set (own_props (or_js (get_prop extracted (js ''radar_score'')) (Obj [])))
          then get_prop (own_props (or_js (get_prop extracted (js ''radar_score'')) (Obj []))) c
          else get_prop (own_props (or_js (get_prop existing (js ''radar_score'')) (Obj []))) c)))"
proof -
  have s: "\<forall>c. get_prop (spread (spread [] (or_js (get_prop existing (js ''radar_score'')) (Obj [])))
                 (or_js (get_prop extracted (js ''radar_score'')) (Obj []))) c =
         (if c \<in> fst ` set (own_props (or_js (get_prop extracted (js ''radar_score'')) (Obj [])))
          then get_prop (own_props (or_js (get_prop extracted (js ''radar_score'')) (Obj []))) c
          else get_prop (own_props (or_js (get_prop existing (js ''radar_score'')) (Obj []))) c)"
    by (simp add: get_prop_spread get_prop_absent get_prop_def [of "[]"])
  from s show ?thesis
    using merged_plain_key [of k extracted existing] merged_narrative_key [of k extracted existing]
    by (simp only: merged_scores or_js_def) blast
qed

theorem merge_precedence_witness:
  "js ''title'' \<notin> {js ''bolt'', js ''themes'', js ''metaphors'', js ''radar_score'',
                    js ''radar_justifications''} \<and>
   get_prop (merge_metadata (Obj spec_extracted) spec_existing) (js ''title'') = Str (js ''A'') \<and>
   js ''scores'' \<notin> {js ''bolt'', js ''themes'', js ''metaphors'', js ''radar_score'',
                     js ''radar_justifications''} \<and>
   get_member (get_prop (merge_metadata (Obj spec_extracted) spec_existing) (js ''scores''))
     (js ''cat1'') = Num 7 \<and>
   js ''themes'' \<in> {js ''bolt'', js ''themes'', js ''metaphors''} \<and>
   get_prop (merge_metadata (Obj spec_extracted) spec_existing) (js ''themes'') = Arr [Str (js ''y'')]"
proof -
  have k1: "js ''title'' \<notin> {js ''bolt'', js ''themes'', js ''metaphors'', js ''radar_score'',
                    js ''radar_justifications''}"
    by (simp add: js_def)
  have k2: "js ''scores'' \<notin> {js ''bolt'', js ''themes'', js ''metaphors'', js ''radar_score'',
                    js ''radar_justifications''}"
    by (simp add: js_def)
  have k3: "js ''themes'' \<in> {js ''bolt'', js ''themes'', js ''metaphors''}"
    by simp
  have v: "js ''title'' \<in> fst ` set spec_existing" "js ''scores'' \<notin> fst ` set spec_existing"
    "get_prop spec_existing (js ''title'') = Str (js ''A'')"
    "get_prop spec_extracted (js ''scores'') = Obj [(js ''cat1'', Num 7)]"
    "get_prop spec_extracted (js ''themes'') = Arr [Str (js ''y'')]"
    by (simp_all add: spec_existing_def spec_extracted_def get_prop_def js_def)
  from merge_precedence [of "js ''title''" spec_extracted spec_existing] k1 v
  have t: "get_prop (merge_metadata (Obj spec_extracted) spec_existing) (js ''title'') = Str (js ''A'')"
    by simp
  from merge_precedence [of "js ''scores''" spec_extracted spec_existing] k2 v
  have "get_prop (merge_metadata (Obj spec_extracted) spec_existing) (js ''scores'') =
          Obj [(js ''cat1'', Num 7)]"
    by simp
  then have s: "get_member (get_prop (merge_metadata (Obj spec_extracted) spec_existing) (js ''scores''))
     (js ''cat1'') = Num 7"
    by (simp add: get_prop_def)
  from merge_precedence [of "js ''themes''" spec_extracted spec_existing] k3 v
  have h: "get_prop (merge_metadata (Obj spec_extracted) spec_existing) (js ''themes'') =
          Arr [Str (js ''y'')]"
    by simp
  from k1 k2 k3 t s h show ?thesis by blast
qed

text \<open>
  C3 as stated fails on its own example: the merged themes are the extracted ones.
\<close>

theorem merged_themes_counterexample:
  "get_prop (merge_metadata (Obj spec_extracted) spec_existing) (js ''themes'') = Arr [Str (js ''y'')] \<and>
   get_prop spec_existing (js ''themes'') = Arr [Str (js ''x'')] \<and>
   js ''y'' \<noteq> js ''x''"
proof -
  have 1: "get_prop (merge_metadata (Obj spec_extracted) spec_existing) (js ''themes'') =
      or_js (get_prop spec_extracted (js ''themes'')) (get_prop spec_existing (js ''themes''))"
    by (rule merged_narrative_key) simp
  have 2: "get_prop spec_extracted (js ''themes'') = Arr [Str (js ''y'')]"
    by (simp add: spec_extracted_def get_prop_def js_def)
  have 3: "get_prop spec_existing (js ''themes'') = Arr [Str (js ''x'')]"
    by (simp add: spec_existing_def get_prop_def js_def)
  have 4: "js ''y'' \<noteq> js ''x''"
    by (simp add: js_def)
  show ?thesis by (simp add: 1 2 3 4 or_js_def)
qed

section \<open>The structured-object extraction\<close>












section \<open>The document rewrite\<close>

lemma remove_radar_marker_line:
  assumes "is_line_term c"
  shows "remove_radar True (radar_marker @ c # rest) = c # rest"
  using assms by (simp add: radar_marker_def js_def radar_ahead_def)

lemma remove_radar_newline: "remove_radar True (10 # s) = 10 # remove_radar True s"
  by (simp add: radar_marker_def js_def is_line_term_def)

lemma trim_space: "is_space c \<Longrightarrow> trim (c # s) = trim s"
  by (simp add: trim_def)

lemma trim_keep:
  assumes "s \<noteq> []" "\<not> is_space (hd s)" "\<not> is_space (last s)"
  shows "trim s = s"
proof -
  from assms(1,2) have 1: "dropWhile is_space s = s" by (cases s) auto
  from assms(1,3) have 2: "dropWhile is_space (rev s) = rev s"
    by (cases "rev s") (auto simp: last_rev [symmetric] simp del: last_rev dest!: arg_cong [where f = hd])
  show ?thesis by (simp add: trim_def 1 2)
qed

lemma matter_of_output:
  "matter_content (js ''---'' @ [10] @ sample_header @ js ''---'' @ [10, 10] @ rest) = 10 # rest"
  by (simp add: matter_content_def sample_header_def js_def Let_def trim_def drop_one_def)

lemma sample_section:
  "radarSection sample_to_string sample_yaml sample_justs (js ''m'') (js ''t'') =
     radar_marker @ [10] @ js ''_Generated by model: m | t_'' @ [10, 10]
       @ js ''- **Theological Cohesion (7/10)**: ok'' @ [10, 10]"
  by (simp add: radarSection_def radar_line_def categories_def sample_yaml_def sample_justs_def
        sample_to_string_def formattedName_def get_prop_def radar_marker_def js_def canon_def Let_def)

text \<open>What one run writes, from the content gray-matter gives for the file.\<close>

lemma sample_rewrite_eq:
  "sample_rewrite fileContent =
     (js ''---'' @ [10] @ sample_header @ js ''---'' @ [10, 10])
     @ (radar_marker @ [10] @ js ''_Generated by model: m | t_'' @ [10, 10]
        @ js ''- **Theological Cohesion (7/10)**: ok'' @ [10, 10])
     @ trim (remove_radar True (matter_content fileContent))"
  by (simp add: sample_rewrite_def rewrite_def updateFileWithRadarSection_def sample_matter_def
        sample_dump_def sample_section Let_def)

lemma is_space_10: "is_space 10"
  by (simp add: is_space_def is_line_term_def)

lemma is_line_term_10: "is_line_term 10"
  by (simp add: is_line_term_def)

text \<open>
  C1 at a document with no generated section. The first run writes the header, the new
  section and the body. The second run, on that output with the same inputs (the same
  clock reading included), takes away only the heading line of the section written by the
  first run and leaves its lines in the body, after the new section: the output of the
  second run is not the output of the first.
\<close>

theorem rewrite_twice_differs:
  "sample_rewrite (js ''---\<newline>sermon_title: T\<newline>---\<newline>Hello'') =
     js ''---\<newline>'' @ sample_header @
     js ''---\<newline>\<newline>## Radar Analysis\<newline>_Generated by model: m | t_\<newline>\<newline>- **Theological Cohesion (7/10)**: ok\<newline>\<newline>Hello'' \<and>
   sample_rewrite (sample_rewrite (js ''---\<newline>sermon_title: T\<newline>---\<newline>Hello'')) =
     js ''---\<newline>'' @ sample_header @
     js ''---\<newline>\<newline>## Radar Analysis\<newline>_Generated by model: m | t_\<newline>\<newline>- **Theological Cohesion (7/10)**: ok\<newline>\<newline>_Generated by model: m | t_\<newline>\<newline>- **Theological Cohesion (7/10)**: ok\<newline>\<newline>Hello'' \<and>
   sample_rewrite (sample_rewrite (js ''---\<newline>sermon_title: T\<newline>---\<newline>Hello'')) \<noteq>
     sample_rewrite (js ''---\<newline>sermon_title: T\<newline>---\<newline>Hello'')"
proof -
  let ?H = "js ''---'' @ [10] @ sample_header @ js ''---'' @ [10, 10]"
  let ?G = "js ''_Generated by model: m | t_'' @ [10, 10]
              @ js ''- **Theological Cohesion (7/10)**: ok'' @ [10, 10]"
  have m0: "matter_content (js ''---\<newline>sermon_title: T\<newline>---\<newline>Hello'') = js ''Hello''"
    by (simp add: matter_content_def js_def Let_def trim_def drop_one_def)
  have r0: "remove_radar True (js ''Hello'') = js ''Hello''"
    by (simp add: radar_marker_def js_def is_line_term_def)
  have t0: "trim (js ''Hello'') = js ''Hello''"
    by (rule trim_keep) (simp_all add: js_def is_space_def is_line_term_def)
  have o1: "sample_rewrite (js ''---\<newline>sermon_title: T\<newline>---\<newline>Hello'') =
      ?H @ (radar_marker @ [10] @ ?G) @ js ''Hello''"
    by (simp only: sample_rewrite_eq m0 r0 t0)
  have m1: "matter_content (?H @ (radar_marker @ [10] @ ?G) @ js ''Hello'') =
      10 # radar_marker @ 10 # ?G @ js ''Hello''"
    using matter_of_output [of "(radar_marker @ [10] @ ?G) @ js ''Hello''"] by simp
  have r1: "remove_radar True (10 # radar_marker @ 10 # ?G @ js ''Hello'') =
      10 # 10 # ?G @ js ''Hello''"
    by (simp only: remove_radar_newline remove_radar_marker_line [OF is_line_term_10])
  have t1: "trim (10 # 10 # ?G @ js ''Hello'') = ?G @ js ''Hello''"
  proof -
    have "trim (?G @ js ''Hello'') = ?G @ js ''Hello''"
      by (rule trim_keep) (simp_all add: js_def is_space_def is_line_term_def)
    then show ?thesis by (simp only: trim_space [OF is_space_10])
  qed
  have o2: "sample_rewrite (?H @ (radar_marker @ [10] @ ?G) @ js ''Hello'') =
      ?H @ (radar_marker @ [10] @ ?G) @ ?G @ js ''Hello''"
    by (simp only: sample_rewrite_eq [of "?H @ (radar_marker @ [10] @ ?G) @ js ''Hello''"] m1 r1 t1)
  have l1: "?H @ (radar_marker @ [10] @ ?G) @ js ''Hello'' =
     js ''---\<newline>'' @ sample_header @
     js ''---\<newline>\<newline>## Radar Analysis\<newline>_Generated by model: m | t_\<newline>\<newline>- **Theological Cohesion (7/10)**: ok\<newline>\<newline>Hello''"
    by (simp add: js_def radar_marker_def)
  have l2: "?H @ (radar_marker @ [10] @ ?G) @ ?G @ js ''Hello'' =
     js ''---\<newline>'' @ sample_header @
     js ''---\<newline>\<newline>## Radar Analysis\<newline>_Generated by model: m | t_\<newline>\<newline>- **Theological Cohesion (7/10)**: ok\<newline>\<newline>_Generated by model: m | t_\<newline>\<newline>- **Theological Cohesion (7/10)**: ok\<newline>\<newline>Hello''"
    by (simp add: js_def radar_marker_def)
  have ne: "?H @ (radar_marker @ [10] @ ?G) @ ?G @ js ''Hello'' \<noteq>
            ?H @ (radar_marker @ [10] @ ?G) @ js ''Hello''"
    by (simp add: js_def)
  from o1 o2 l1 l2 ne show ?thesis by (simp only: simp_thms)
qed

text \<open>
  C2 at a document that holds a generated section followed by a top-level heading. The
  replacement takes away the heading line of the old section and nothing else: the old
  line stays in the body that is written back, under the new section. When the body holds
  the heading twice, the second one stays as well.
\<close>

theorem stale_section_kept:
  "remove_radar True (js ''## Radar Analysis\<newline>old text\<newline>\<newline># Sermon\<newline>Hello'') =
     js ''\<newline>old text\<newline>\<newline># Sermon\<newline>Hello'' \<and>
   sample_rewrite (js ''---\<newline>sermon_title: T\<newline>---\<newline>## Radar Analysis\<newline>old text\<newline>\<newline># Sermon\<newline>Hello'') =
     js ''---\<newline>'' @ sample_header @
     js ''---\<newline>\<newline>## Radar Analysis\<newline>_Generated by model: m | t_\<newline>\<newline>- **Theological Cohesion (7/10)**: ok\<newline>\<newline>old text\<newline>\<newline># Sermon\<newline>Hello'' \<and>
   remove_radar True (js ''## Radar Analysis\<newline>x\<newline>## Radar Analysis\<newline>y'') =
     js ''\<newline>x\<newline>## Radar Analysis\<newline>y''"
proof -
  let ?H = "js ''---'' @ [10] @ sample_header @ js ''---'' @ [10, 10]"
  let ?G = "js ''_Generated by model: m | t_'' @ [10, 10]
              @ js ''- **Theological Cohesion (7/10)**: ok'' @ [10, 10]"
  let ?B = "js ''old text\<newline>\<newline># Sermon\<newline>Hello''"
  have b: "js ''## Radar Analysis\<newline>old text\<newline>\<newline># Sermon\<newline>Hello'' = radar_marker @ 10 # ?B"
    by (simp add: js_def radar_marker_def)
  have r: "remove_radar True (radar_marker @ 10 # ?B) = 10 # ?B"
    by (rule remove_radar_marker_line [OF is_line_term_10])
  have 1: "remove_radar True (js ''## Radar Analysis\<newline>old text\<newline>\<newline># Sermon\<newline>Hello'') =
     js ''\<newline>old text\<newline>\<newline># Sermon\<newline>Hello''"
    unfolding b r by (simp add: js_def)
  have m: "matter_content (js ''---\<newline>sermon_title: T\<newline>---\<newline>## Radar Analysis\<newline>old text\<newline>\<newline># Sermon\<newline>Hello'') =
     radar_marker @ 10 # ?B"
    by (simp add: matter_content_def js_def Let_def trim_def drop_one_def radar_marker_def)
  have t: "trim (10 # ?B) = ?B"
  proof -
    have "trim ?B = ?B"
      by (rule trim_keep) (simp_all add: js_def is_space_def is_line_term_def)
    then show ?thesis by (simp only: trim_space [OF is_space_10])
  qed
  have o: "sample_rewrite (js ''---\<newline>sermon_title: T\<newline>---\<newline>## Radar Analysis\<newline>old text\<newline>\<newline># Sermon\<newline>Hello'') =
      ?H @ (radar_marker @ [10] @ ?G) @ ?B"
    by (simp only: sample_rewrite_eq m r t)
  have l: "?H @ (radar_marker @ [10] @ ?G) @ ?B =
     js ''---\<newline>'' @ sample_header @
     js ''---\<newline>\<newline>## Radar Analysis\<newline>_Generated by model: m | t_\<newline>\<newline>- **Theological Cohesion (7/10)**: ok\<newline>\<newline>old text\<newline>\<newline># Sermon\<newline>Hello''"
    by (simp add: js_def radar_marker_def)
  have b2: "js ''## Radar Analysis\<newline>x\<newline>## Radar Analysis\<newline>y'' =
      radar_marker @ 10 # js ''x\<newline>## Radar Analysis\<newline>y''"
    by (simp add: js_def radar_marker_def)
  have 3: "remove_radar True (js ''## Radar Analysis\<newline>x\<newline>## Radar Analysis\<newline>y'') =
     js ''\<newline>x\<newline>## Radar Analysis\<newline>y''"
    unfolding b2 remove_radar_marker_line [OF is_line_term_10] by (simp add: js_def)
  from 1 o l 3 show ?thesis by (simp only: simp_thms)
qed

section \<open>The fallback\<close>

text \<open>
  C9 at a provider whose call fails, with the fallback switched on.
  \<^verbatim>\<open>generateRadarScores\<close> catches the failure itself and returns the scores the document
  had (here none), so the radar step ends as a success after one request, for the first
  model, and no request for a fallback model. An operation that does raise is not run a
  second time either: the step ends with the reference error, after one request.
\<close>

theorem fallback_never_invoked:
  "radar_step (radar_operation failing_llm []) (Some (js ''gpt-4'')) True [] =
     (Inr (Obj [], []), [Some (js ''gpt-4'')]) \<and>
   radar_step raising_operation (Some (js ''gpt-4'')) True [] =
     (Inl (ReferenceError (js ''llmOptions is not defined'')), [Some (js ''gpt-4'')])"
proof -
  have 1: "radar_step (radar_operation failing_llm []) (Some (js ''gpt-4'')) True [] =
     (Inr (Obj [], []), [Some (js ''gpt-4'')])"
    by (simp add: radar_step_def radar_operation_def failing_llm_def generateRadarScores_def
          or_js_def get_prop_def)
  have "message (Error (js ''overloaded'')) \<noteq> []"
    by (simp add: js_def)
  then have 2: "radar_step raising_operation (Some (js ''gpt-4'')) True [] =
     (Inl (ReferenceError (js ''llmOptions is not defined'')), [Some (js ''gpt-4'')])"
    by (simp add: radar_step_def raising_operation_def)
  from 1 2 show ?thesis by simp
qed

end
